theory Spec2Isabelle
  imports Main
begin

section \<open>Python values, model instances and the persisted store\<close>

text \<open>
  The module \<^verbatim>\<open>denorm/fields.py\<close> defines three field wrappers: the class
  \<^verbatim>\<open>DenormDBField\<close> built by \<^verbatim>\<open>denormalized\<close>, \<^verbatim>\<open>CountField\<close> and
  \<^verbatim>\<open>CacheKeyField\<close>. Their methods are embedded below as functions on records that
  hold the attributes of the Python objects. An attribute that the Python object gets
  only when the field is attached to a model class (\<^verbatim>\<open>attname\<close>, \<^verbatim>\<open>denorm.model\<close>,
  ...) is an option, and reading it before it exists is the AttributeError of Python.
\<close>

datatype pyval =
    PyNone
  | PyBool bool
  | PyInt int
  | PyStr string
  | PyTuple "pyval list"
  | PyDict "(string \<times> pyval) list"

datatype error = AttributeError | IndexError | Raised string

type_synonym kwargs = "string \<rightharpoonup> pyval"

text \<open>\<^verbatim>\<open>kwargs.pop(key, default)\<close>: the value and the dictionary without the key.\<close>

definition pop :: "kwargs \<Rightarrow> string \<Rightarrow> pyval \<Rightarrow> pyval \<times> kwargs" where
  "pop kw k d = ((case kw k of None \<Rightarrow> d | Some v \<Rightarrow> v), kw(k := None))"

text \<open>
  A model instance: its primary key and its attributes. \<^verbatim>\<open>setattr\<close> on an instance
  stores the attribute.
\<close>

record model_instance =
  pk :: pyval
  attrs :: "string \<rightharpoonup> pyval"

definition setattr :: "model_instance \<Rightarrow> string \<Rightarrow> pyval \<Rightarrow> model_instance" where
  "setattr inst a v = inst\<lparr>attrs := (attrs inst)(a \<mapsto> v)\<rparr>"

definition getattr :: "model_instance \<Rightarrow> string \<Rightarrow> pyval option" where
  "getattr inst a = attrs inst a"

text \<open>
  The persisted store: one table for each model class (by the name of the class), a
  table maps a primary key to its row, and a row gives the value of each column. The
  query \<^verbatim>\<open>model.objects.filter(pk=k).values_list(attname, flat=True)[0]\<close> is the
  composition of the three functions below; indexing an empty result raises IndexError.
\<close>

type_synonym row = "string \<Rightarrow> pyval"
type_synonym table = "pyval \<rightharpoonup> row"
type_synonym database = "string \<Rightarrow> table"

definition filter_pk :: "table \<Rightarrow> pyval \<Rightarrow> row list" where
  "filter_pk t k = (case t k of None \<Rightarrow> [] | Some r \<Rightarrow> [r])"

definition values_list_flat :: "row list \<Rightarrow> string \<Rightarrow> pyval list" where
  "values_list_flat rs a = map (\<lambda>r. r a) rs"

definition index0 :: "'a list \<Rightarrow> error + 'a" where
  "index0 xs = (case xs of [] \<Rightarrow> Inl IndexError | x # _ \<Rightarrow> Inr x)"

section \<open>Signals and object identity\<close>

text \<open>
  A receiver of a signal is either the bound method \<^verbatim>\<open>setup\<close> of one descriptor
  object (identified by the identity of that object) or one of the two module-level
  functions \<^verbatim>\<open>denorms.many_to_many_pre_save\<close> and \<^verbatim>\<open>denorms.many_to_many_post_save\<close>.
  A registration pairs the receiver with the sender it was connected for
  (\<open>None\<close> when \<^verbatim>\<open>connect\<close> was called without a sender).
\<close>

datatype receiver = Setup nat | ManyToManyPreSave | ManyToManyPostSave

type_synonym registration = "receiver \<times> string option"

record runtime =
  next_id :: nat
  class_prepared :: "registration list"
  sig_pre_save :: "registration list"
  sig_post_save :: "registration list"

text \<open>Creating a Python object gives it an identity no earlier object has.\<close>

definition new_object :: "runtime \<Rightarrow> nat \<times> runtime" where
  "new_object rt = (next_id rt, rt\<lparr>next_id := Suc (next_id rt)\<rparr>)"

text \<open>
  Modelled from the spec: \<^verbatim>\<open>Signal.connect\<close> of the host framework, which is not part
  of this repository. The spec gives it as a (event, handler, subject-type) registration
  with at-most-once semantics per (handler identity, subject-type) pair: connecting a
  pair that is registered already changes nothing and raises nothing.
\<close>

definition connect :: "registration list \<Rightarrow> receiver \<Rightarrow> string option \<Rightarrow> registration list" where
  "connect regs r sender = (if (r, sender) \<in> set regs then regs else regs @ [(r, sender)])"

section \<open>CountField\<close>

record count_denorm =
  cd_id :: nat
  cd_skip :: pyval
  cd_manager_name :: string
  cd_filter :: pyval
  cd_model :: "string option"
  cd_fieldname :: "string option"

text \<open>
  \<open>cf_base_kwargs\<close> are the keyword arguments with which the constructor of
  \<^verbatim>\<open>PositiveIntegerField\<close> was called; \<open>cf_kwargs\<close> is \<^verbatim>\<open>self.kwargs\<close>, the same
  dictionary object, so it holds the default written after the assignment too.
\<close>

record count_field =
  cf_denorm :: count_denorm
  cf_kwargs :: kwargs
  cf_base_kwargs :: kwargs
  cf_name :: "string option"
  cf_attname :: "string option"

definition CountField_init :: "string \<Rightarrow> kwargs \<Rightarrow> runtime \<Rightarrow> count_field \<times> runtime" where
  "CountField_init manager_name kw rt =
     (let (skip, kw1) = pop kw ''skip'' PyNone;
          (qs_filter, kw2) = pop kw1 ''filter'' (PyDict []);
          (i, rt1) = new_object rt;
          denorm = \<lparr>cd_id = i, cd_skip = skip, cd_manager_name = manager_name,
                    cd_filter = qs_filter, cd_model = None, cd_fieldname = None\<rparr>;
          kw3 = kw2(''default'' \<mapsto> PyInt 0)
      in (\<lparr>cf_denorm = denorm, cf_kwargs = kw3, cf_base_kwargs = kw3,
           cf_name = None, cf_attname = None\<rparr>, rt1))"

text \<open>
  \<^verbatim>\<open>contribute_to_class\<close>: the descriptor learns its model and field name, its
  \<^verbatim>\<open>setup\<close> is connected to \<^verbatim>\<open>class_prepared\<close> without a sender, and the base class
  gives the field its name and, for an integer field, the same attribute name. The
  further arguments of the method go to the base class as they are and are left out.
\<close>

definition CountField_contribute_to_class ::
  "count_field \<Rightarrow> string \<Rightarrow> string \<Rightarrow> runtime \<Rightarrow> count_field \<times> runtime" where
  "CountField_contribute_to_class fld cls name rt =
     (let denorm = (cf_denorm fld)\<lparr>cd_model := Some cls, cd_fieldname := Some name\<rparr>;
          rt1 = rt\<lparr>class_prepared := connect (class_prepared rt) (Setup (cd_id denorm)) None\<rparr>
      in (fld\<lparr>cf_denorm := denorm, cf_name := Some name, cf_attname := Some name\<rparr>, rt1))"

text \<open>
  \<^verbatim>\<open>pre_save\<close> returns the outcome (the value, or the exception raised) and the model
  instance as the call leaves it.
\<close>

definition CountField_pre_save ::
  "count_field \<Rightarrow> database \<Rightarrow> model_instance \<Rightarrow> bool \<Rightarrow> (error + pyval) \<times> model_instance" where
  "CountField_pre_save fld db model_instance add =
     (let value =
        (if add then Inr (PyInt 0)
         else (case cd_model (cf_denorm fld) of
                 None \<Rightarrow> Inl AttributeError
               | Some model \<Rightarrow>
                   (case cf_attname fld of
                      None \<Rightarrow> Inl AttributeError
                    | Some a \<Rightarrow> index0 (values_list_flat (filter_pk (db model) (pk model_instance)) a))))
      in (case value of
            Inl e \<Rightarrow> (Inl e, model_instance)
          | Inr v \<Rightarrow>
              (case cf_attname fld of
                 None \<Rightarrow> (Inl AttributeError, model_instance)
               | Some a \<Rightarrow> (Inr v, setattr model_instance a v))))"

text \<open>
  A migration triple: the path of the field class, the positional arguments and the
  keyword arguments, whose values are source text.
\<close>

type_synonym triple = "string \<times> string list \<times> (string \<rightharpoonup> string)"

text \<open>\<^verbatim>\<open>'.'.join(parts)\<close>.\<close>

fun dotted :: "string list \<Rightarrow> string" where
  "dotted [] = []"
| "dotted [p] = p"
| "dotted (p # q # parts) = p @ ''.'' @ dotted (q # parts)"

definition CountField_south_field_triple :: "count_field \<Rightarrow> triple" where
  "CountField_south_field_triple fld =
     (dotted [''django'', ''db'', ''models'', ''PositiveIntegerField''], [],
      [''default'' \<mapsto> ''0''])"

section \<open>Compute functions and dependency declarations\<close>

text \<open>
  A compute function is called with the model instance. It returns a value or raises,
  and, being arbitrary Python, it may change the instance and the rest of the world
  \<open>'w\<close> (a random generator, a log, ...) on the way. The function object may carry
  the attribute \<^verbatim>\<open>depend\<close>, a list of (declaration class, args, kwargs).
\<close>

type_synonym 'w callable =
  "model_instance \<Rightarrow> 'w \<Rightarrow> (error + pyval) \<times> model_instance \<times> 'w"

record 'w pyfunc =
  fn_call :: "'w callable"
  fn_depend :: "(string \<times> pyval list \<times> kwargs) list option"

text \<open>
  Modelled from the spec: the declaration classes of the module \<^verbatim>\<open>dependencies\<close>
  (\<^verbatim>\<open>CacheKeyDependOnRelated\<close> and the classes named in \<^verbatim>\<open>func.depend\<close>), which are
  not in the source file. The spec gives a declaration as a value object built from the
  dependency-specification arguments; the field name is assigned to it afterwards.
\<close>

record dependency =
  dep_cls :: string
  dep_args :: "pyval list"
  dep_kwargs :: kwargs
  dep_fieldname :: "string option"

definition make_dependency :: "string \<Rightarrow> pyval list \<Rightarrow> kwargs \<Rightarrow> dependency" where
  "make_dependency dcls dargs dkwargs =
     \<lparr>dep_cls = dcls, dep_args = dargs, dep_kwargs = dkwargs, dep_fieldname = None\<rparr>"

definition CacheKeyDependOnRelated :: "pyval list \<Rightarrow> kwargs \<Rightarrow> dependency" where
  "CacheKeyDependOnRelated dargs dkwargs =
     make_dependency ''CacheKeyDependOnRelated'' dargs dkwargs"

section \<open>CacheKeyField\<close>

record 'w cachekey_denorm =
  kd_id :: nat
  kd_depend :: "dependency list"
  kd_func :: "'w callable"
  kd_model :: "string option"
  kd_fieldname :: "string option"

text \<open>
  Modelled from the spec: the constructor \<^verbatim>\<open>denorms.BaseCacheKeyDenorm\<close>, which is not
  in the source file. The spec says that the descriptor's dependency list is exactly
  the list it is given and that its compute function generates a fresh token; the
  token generator \<open>token\<close> of the module \<^verbatim>\<open>denorms\<close> is a parameter.
\<close>

definition BaseCacheKeyDenorm ::
  "'w callable \<Rightarrow> nat \<Rightarrow> dependency list \<Rightarrow> 'w cachekey_denorm" where
  "BaseCacheKeyDenorm token i depend_on_related =
     \<lparr>kd_id = i, kd_depend = depend_on_related, kd_func = token,
      kd_model = None, kd_fieldname = None\<rparr>"

record 'w cachekey_field =
  kf_dependencies :: "dependency list"
  kf_kwargs :: kwargs
  kf_base_kwargs :: kwargs
  kf_denorm :: "'w cachekey_denorm option"
  kf_name :: "string option"
  kf_attname :: "string option"

definition CacheKeyField_init :: "kwargs \<Rightarrow> 'w cachekey_field" where
  "CacheKeyField_init kw =
     (let kw1 = kw(''default'' \<mapsto> PyInt 0)
      in \<lparr>kf_dependencies = [], kf_kwargs = kw1, kf_base_kwargs = kw1,
          kf_denorm = None, kf_name = None, kf_attname = None\<rparr>)"

definition depend_on_related ::
  "'w cachekey_field \<Rightarrow> pyval list \<Rightarrow> kwargs \<Rightarrow> 'w cachekey_field" where
  "depend_on_related fld dargs dkwargs =
     fld\<lparr>kf_dependencies := kf_dependencies fld @ [CacheKeyDependOnRelated dargs dkwargs]\<rparr>"

text \<open>A sequence of calls of \<^verbatim>\<open>depend_on_related\<close> on one field, in order.\<close>

fun depend_on_related_calls ::
  "'w cachekey_field \<Rightarrow> (pyval list \<times> kwargs) list \<Rightarrow> 'w cachekey_field" where
  "depend_on_related_calls fld [] = fld"
| "depend_on_related_calls fld ((dargs, dkwargs) # calls) =
     depend_on_related_calls (depend_on_related fld dargs dkwargs) calls"

text \<open>
  \<^verbatim>\<open>contribute_to_class\<close>: the loop assigns the field name to every declaration of
  the list (the objects in \<^verbatim>\<open>self.dependencies\<close> are the ones that change), and the
  descriptor is built from that list.
\<close>

definition CacheKeyField_contribute_to_class ::
  "'w callable \<Rightarrow> 'w cachekey_field \<Rightarrow> string \<Rightarrow> string \<Rightarrow> runtime
     \<Rightarrow> 'w cachekey_field \<times> runtime" where
  "CacheKeyField_contribute_to_class token fld cls name rt =
     (let deps = map (\<lambda>depend. depend\<lparr>dep_fieldname := Some name\<rparr>) (kf_dependencies fld);
          (i, rt1) = new_object rt;
          denorm = (BaseCacheKeyDenorm token i deps)
                     \<lparr>kd_model := Some cls, kd_fieldname := Some name\<rparr>;
          rt2 = rt1\<lparr>class_prepared := connect (class_prepared rt1) (Setup i) None\<rparr>
      in (fld\<lparr>kf_dependencies := deps, kf_denorm := Some denorm,
               kf_name := Some name, kf_attname := Some name\<rparr>, rt2))"

definition CacheKeyField_pre_save ::
  "'w cachekey_field \<Rightarrow> database \<Rightarrow> model_instance \<Rightarrow> bool \<Rightarrow> 'w
     \<Rightarrow> (error + pyval) \<times> model_instance \<times> 'w" where
  "CacheKeyField_pre_save fld db model_instance add w =
     (case kf_denorm fld of
        None \<Rightarrow> (Inl AttributeError, model_instance, w)
      | Some denorm \<Rightarrow>
          (let (value, inst1, w1) =
             (if add then kd_func denorm model_instance w
              else ((case kd_model denorm of
                       None \<Rightarrow> Inl AttributeError
                     | Some model \<Rightarrow>
                         (case kf_attname fld of
                            None \<Rightarrow> Inl AttributeError
                          | Some a \<Rightarrow>
                              index0 (values_list_flat
                                        (filter_pk (db model) (pk model_instance)) a))),
                    model_instance, w))
           in (case value of
                 Inl e \<Rightarrow> (Inl e, inst1, w1)
               | Inr v \<Rightarrow>
                   (case kf_attname fld of
                      None \<Rightarrow> (Inl AttributeError, inst1, w1)
                    | Some a \<Rightarrow> (Inr v, setattr inst1 a v, w1)))))"

definition CacheKeyField_south_field_triple :: "'w cachekey_field \<Rightarrow> triple" where
  "CacheKeyField_south_field_triple fld =
     (dotted [''django'', ''db'', ''models'', ''BigIntegerField''], [],
      [''default'' \<mapsto> ''0''])"

section \<open>The computed field of \<^verbatim>\<open>denormalized\<close>\<close>

text \<open>
  \<^verbatim>\<open>DBField\<close>, the field class given to \<^verbatim>\<open>denormalized\<close>: its module, its name and
  the attribute name it derives from a field name when it is attached to a class.
\<close>

record dbfield_class =
  fc_module :: string
  fc_name :: string
  fc_get_attname :: "string \<Rightarrow> string"

datatype denorm_class = BaseCallbackDenorm | CallbackDenorm

record 'w callback_denorm =
  bd_id :: nat
  bd_class :: denorm_class
  bd_skip :: pyval
  bd_func :: "'w pyfunc"
  bd_depend :: "dependency list"
  bd_model :: "string option"
  bd_fieldname :: "string option"

text \<open>
  \<open>df_base_args\<close> and \<open>df_base_kwargs\<close> are the arguments with which the
  constructor of \<^verbatim>\<open>DBField\<close> was called.
\<close>

record 'w denorm_field =
  df_base :: dbfield_class
  df_func :: "'w pyfunc"
  df_skip :: pyval
  df_base_args :: "pyval list"
  df_base_kwargs :: kwargs
  df_denorm :: "'w callback_denorm option"
  df_field_args :: "(pyval list \<times> kwargs) option"
  df_name :: "string option"
  df_attname :: "string option"

definition DenormDBField_init ::
  "dbfield_class \<Rightarrow> 'w pyfunc \<Rightarrow> pyval list \<Rightarrow> kwargs \<Rightarrow> 'w denorm_field" where
  "DenormDBField_init DBField func args kw =
     (let (skip, kw1) = pop kw ''skip'' PyNone
      in \<lparr>df_base = DBField, df_func = func, df_skip = skip,
          df_base_args = args, df_base_kwargs = kw1,
          df_denorm = None, df_field_args = None, df_name = None, df_attname = None\<rparr>)"

text \<open>
  \<open>bulk_unsafe\<close> is the setting \<^verbatim>\<open>DENORM_BULK_UNSAFE_TRIGGERS\<close>: \<open>None\<close> when the
  settings do not have it.
\<close>

definition DenormDBField_contribute_to_class ::
  "'w denorm_field \<Rightarrow> bool option \<Rightarrow> string \<Rightarrow> string \<Rightarrow> pyval list \<Rightarrow> kwargs \<Rightarrow> runtime
     \<Rightarrow> 'w denorm_field \<times> runtime" where
  "DenormDBField_contribute_to_class fld bulk_unsafe cls name args kw rt =
     (let (i, rt1) = new_object rt;
          denorm =
            \<lparr>bd_id = i,
             bd_class = (if bulk_unsafe = Some True then BaseCallbackDenorm else CallbackDenorm),
             bd_skip = df_skip fld,
             bd_func = df_func fld,
             bd_depend =
               map (\<lambda>(dcls, dargs, dkwargs). make_dependency dcls dargs dkwargs)
                 (case fn_depend (df_func fld) of None \<Rightarrow> [] | Some ds \<Rightarrow> ds),
             bd_model = Some cls,
             bd_fieldname = Some name\<rparr>;
          rt2 = rt1\<lparr>class_prepared := connect (class_prepared rt1) (Setup i) (Some cls)\<rparr>;
          rt3 = rt2\<lparr>sig_pre_save := connect (sig_pre_save rt2) ManyToManyPreSave (Some cls)\<rparr>;
          rt4 = rt3\<lparr>sig_post_save := connect (sig_post_save rt3) ManyToManyPostSave (Some cls)\<rparr>
      in (fld\<lparr>df_denorm := Some denorm, df_field_args := Some (args, kw),
               df_name := Some name,
               df_attname := Some (fc_get_attname (df_base fld) name)\<rparr>, rt4))"

text \<open>
  The fields of one class body are attached one after the other, each with its
  attribute name.
\<close>

fun contribute_all ::
  "('w denorm_field \<times> string) list \<Rightarrow> bool option \<Rightarrow> string \<Rightarrow> runtime
     \<Rightarrow> 'w denorm_field list \<times> runtime" where
  "contribute_all [] bulk_unsafe cls rt = ([], rt)"
| "contribute_all ((fld, name) # rest) bulk_unsafe cls rt =
     (let (fld1, rt1) = DenormDBField_contribute_to_class fld bulk_unsafe cls name [] Map.empty rt;
          (flds, rt2) = contribute_all rest bulk_unsafe cls rt1
      in (fld1 # flds, rt2))"

definition DenormDBField_pre_save ::
  "'w denorm_field \<Rightarrow> model_instance \<Rightarrow> bool \<Rightarrow> 'w
     \<Rightarrow> (error + pyval) \<times> model_instance \<times> 'w" where
  "DenormDBField_pre_save fld model_instance add w =
     (case df_denorm fld of
        None \<Rightarrow> (Inl AttributeError, model_instance, w)
      | Some denorm \<Rightarrow>
          (case fn_call (bd_func denorm) model_instance w of
             (Inl e, inst1, w1) \<Rightarrow> (Inl e, inst1, w1)
           | (Inr value, inst1, w1) \<Rightarrow>
               (case df_attname fld of
                  None \<Rightarrow> (Inl AttributeError, inst1, w1)
                | Some a \<Rightarrow> (Inr value, setattr inst1 a value, w1))))"

text \<open>
  \<open>introspector\<close> is the function of the migration tool that the hook imports; its
  result is passed on as it is.
\<close>

definition DenormDBField_south_field_triple ::
  "('w denorm_field \<Rightarrow> string list \<times> (string \<rightharpoonup> string)) \<Rightarrow> 'w denorm_field \<Rightarrow> triple" where
  "DenormDBField_south_field_triple introspector fld =
     (let field_class = fc_module (df_base fld) @ ''.'' @ fc_name (df_base fld);
          (args, kw) = introspector fld
      in (field_class, args, kw))"

text \<open>
  \<^verbatim>\<open>denormalized(DBField, *args, **kwargs)\<close> returns the decorator \<^verbatim>\<open>deco\<close>, a closure
  over its three arguments. \<^verbatim>\<open>deco\<close> writes into the dictionary of the closure, so it
  returns the closure as it leaves it together with the field.
\<close>

record closure =
  cl_DBField :: dbfield_class
  cl_args :: "pyval list"
  cl_kwargs :: kwargs

definition denormalized :: "dbfield_class \<Rightarrow> pyval list \<Rightarrow> kwargs \<Rightarrow> closure" where
  "denormalized DBField args kw = \<lparr>cl_DBField = DBField, cl_args = args, cl_kwargs = kw\<rparr>"

definition deco :: "closure \<Rightarrow> 'w pyfunc \<Rightarrow> 'w denorm_field \<times> closure" where
  "deco c func =
     (let kw1 = (cl_kwargs c)(''blank'' \<mapsto> PyBool True);
          kw2 = (if kw1 ''default'' = None then kw1(''null'' \<mapsto> PyBool True) else kw1);
          dbfield = DenormDBField_init (cl_DBField c) func (cl_args c) kw2
      in (dbfield, c\<lparr>cl_kwargs := kw2\<rparr>))"

section \<open>Recreating a column from a migration triple\<close>

text \<open>
  Modelled from the spec: the external migration tooling, which is not part of this
  repository. The spec says that it recreates the underlying column from the triple
  without knowledge of the wrapper type: it calls the class at the path with the
  arguments of the triple, whose values are the source text of literals. The triple
  suffices when that call is the constructor call that built the underlying field.
\<close>

type_synonym constructor_call = "string \<times> pyval list \<times> kwargs"

fun digits_value :: "string \<Rightarrow> nat \<Rightarrow> nat option" where
  "digits_value [] acc = Some acc"
| "digits_value (c # cs) acc =
     (let d = (of_char c :: nat)
      in if 48 \<le> d \<and> d \<le> 57 then digits_value cs (10 * acc + (d - 48)) else None)"

definition literal_value :: "string \<Rightarrow> pyval option" where
  "literal_value s =
     (if s = ''None'' then Some PyNone
      else if s = ''True'' then Some (PyBool True)
      else if s = ''False'' then Some (PyBool False)
      else if s = [] then None
      else map_option (\<lambda>n. PyInt (int n)) (digits_value s 0))"

definition recreate :: "triple \<Rightarrow> constructor_call option" where
  "recreate t =
     (case t of (path, args, kw) \<Rightarrow>
        map_option (\<lambda>vs. (path, vs, (\<lambda>k. Option.bind (kw k) literal_value)))
          (those (map literal_value args)))"

text \<open>
  The constructor calls that build the underlying fields: \<^verbatim>\<open>CountField\<close> and
  \<^verbatim>\<open>CacheKeyField\<close> call the constructor of their base class with keyword arguments
  only, \<^verbatim>\<open>DenormDBField\<close> calls the one of \<^verbatim>\<open>DBField\<close>.
\<close>

definition CountField_base_call :: "count_field \<Rightarrow> constructor_call" where
  "CountField_base_call fld = (''django.db.models.PositiveIntegerField'', [], cf_base_kwargs fld)"

definition CacheKeyField_base_call :: "'w cachekey_field \<Rightarrow> constructor_call" where
  "CacheKeyField_base_call fld = (''django.db.models.BigIntegerField'', [], kf_base_kwargs fld)"

section \<open>Example data\<close>

definition rt0 :: runtime where
  "rt0 = \<lparr>next_id = 0, class_prepared = [], sig_pre_save = [], sig_post_save = []\<rparr>"

text \<open>
  An \<^verbatim>\<open>Author\<close> model with \<^verbatim>\<open>book_count = CountField('books')\<close>; the stored count
  of the author with primary key 1 is 3, the instance in memory still has 0.
\<close>

definition author_book_count :: count_field where
  "author_book_count =
     fst (CountField_contribute_to_class (fst (CountField_init ''books'' Map.empty rt0))
            ''Author'' ''book_count'' (snd (CountField_init ''books'' Map.empty rt0)))"

definition author_db :: database where
  "author_db =
     (\<lambda>model. if model = ''Author''
        then [PyInt 1 \<mapsto> (\<lambda>column. if column = ''book_count'' then PyInt 3 else PyNone)]
        else Map.empty)"

definition author_1 :: model_instance where
  "author_1 = \<lparr>pk = PyInt 1, attrs = [''book_count'' \<mapsto> PyInt 0]\<rparr>"

definition author_2 :: model_instance where
  "author_2 = \<lparr>pk = PyInt 2, attrs = [''book_count'' \<mapsto> PyInt 0]\<rparr>"

text \<open>
  An \<^verbatim>\<open>Order\<close> model with a computed field \<^verbatim>\<open>total\<close> over an integer field. The
  compute function reads the sum of the order's lines from the instance, raises when
  the instance does not have it, and counts its calls in the world.
\<close>

definition IntegerField :: dbfield_class where
  "IntegerField =
     \<lparr>fc_module = ''django.db.models.fields'', fc_name = ''IntegerField'',
      fc_get_attname = (\<lambda>name. name)\<rparr>"

definition order_total_func :: "nat pyfunc" where
  "order_total_func =
     \<lparr>fn_call = (\<lambda>inst calls.
        ((case attrs inst ''lines_sum'' of
            None \<Rightarrow> Inl (Raised ''AttributeError'')
          | Some v \<Rightarrow> Inr v), inst, Suc calls)),
      fn_depend = None\<rparr>"

definition order_total :: "nat denorm_field" where
  "order_total =
     fst (DenormDBField_contribute_to_class
            (fst (deco (denormalized IntegerField [] Map.empty) order_total_func))
            None ''Order'' ''total'' [] Map.empty rt0)"

definition order_1 :: model_instance where
  "order_1 = \<lparr>pk = PyInt 1, attrs = [''lines_sum'' \<mapsto> PyInt 42]\<rparr>"

definition order_2 :: model_instance where
  "order_2 = \<lparr>pk = PyInt 2, attrs = [''total'' \<mapsto> PyInt 7]\<rparr>"

text \<open>
  A compute function that first writes 99 to the attribute \<^verbatim>\<open>total\<close> of the instance
  and then raises, and the computed field built from it.
\<close>

definition order_writing_func :: "nat pyfunc" where
  "order_writing_func =
     \<lparr>fn_call = (\<lambda>inst calls.
        (Inl (Raised ''ValueError''), setattr inst ''total'' (PyInt 99), Suc calls)),
      fn_depend = None\<rparr>"

definition order_writing_total :: "nat denorm_field" where
  "order_writing_total =
     fst (DenormDBField_contribute_to_class
            (fst (deco (denormalized IntegerField [] Map.empty) order_writing_func))
            None ''Order'' ''total'' [] Map.empty rt0)"

text \<open>
  An \<^verbatim>\<open>Article\<close> model with a \<^verbatim>\<open>CacheKeyField\<close> that depends on its comments; the
  token generator hands out the number of tokens generated so far.
\<close>

definition counter_token :: "nat callable" where
  "counter_token = (\<lambda>inst n. (Inr (PyInt (int n)), inst, Suc n))"

definition article_cache_key :: "nat cachekey_field" where
  "article_cache_key =
     fst (CacheKeyField_contribute_to_class counter_token
            (depend_on_related_calls (CacheKeyField_init Map.empty)
               [([PyStr ''Comment''], Map.empty)])
            ''Article'' ''cache_key'' rt0)"

definition article_db :: database where
  "article_db =
     (\<lambda>model. if model = ''Article''
        then [PyInt 1 \<mapsto> (\<lambda>column. if column = ''cache_key'' then PyInt 777 else PyNone)]
        else Map.empty)"

definition article_1 :: model_instance where
  "article_1 = \<lparr>pk = PyInt 1, attrs = [''cache_key'' \<mapsto> PyInt 5]\<rparr>"

definition article_2 :: model_instance where
  "article_2 = \<lparr>pk = PyInt 2, attrs = [''cache_key'' \<mapsto> PyInt 5]\<rparr>"

text \<open>A class body of \<^verbatim>\<open>Order\<close> with two computed fields.\<close>

definition order_fields :: "(nat denorm_field \<times> string) list" where
  "order_fields =
     [(fst (deco (denormalized IntegerField [] Map.empty) order_total_func), ''total''),
      (fst (deco (denormalized IntegerField [] Map.empty) order_total_func), ''tax'')]"

text \<open>
  \<^verbatim>\<open>CountField('books', db_column='n_books')\<close>, and the keyword arguments
  \<^verbatim>\<open>skip=('title',), max_length=10\<close> for \<^verbatim>\<open>denormalized\<close>.
\<close>

definition named_book_count :: count_field where
  "named_book_count =
     fst (CountField_init ''books'' [''db_column'' \<mapsto> PyStr ''n_books''] rt0)"

definition skip_kwargs :: kwargs where
  "skip_kwargs = [''skip'' \<mapsto> PyTuple [PyStr ''title''], ''max_length'' \<mapsto> PyInt 10]"

section \<open>Properties of \<^verbatim>\<open>CountField\<close>\<close>

lemma read_back_row:
  "t k = Some r \<Longrightarrow> index0 (values_list_flat (filter_pk t k) a) = Inr (r a)"
  by (simp add: index0_def values_list_flat_def filter_pk_def)

lemma read_back_no_row:
  "t k = None \<Longrightarrow> index0 (values_list_flat (filter_pk t k) a) = Inl IndexError"
  by (simp add: index0_def values_list_flat_def filter_pk_def)

lemma author_book_count_attached:
  "cf_attname author_book_count = Some ''book_count''"
  "cd_model (cf_denorm author_book_count) = Some ''Author''"
  by (simp_all add: author_book_count_def CountField_contribute_to_class_def
      CountField_init_def pop_def new_object_def Let_def)

text \<open>
  C1. For a \<^verbatim>\<open>CountField\<close> attached under the attribute name \<open>a\<close>, \<^verbatim>\<open>pre_save\<close>
  with \<open>add = True\<close> writes 0 to the attribute and returns 0, whatever the store, the
  instance and the rest of the field are. With \<open>add = False\<close> it writes and returns
  the value \<open>r a\<close> that the row \<open>r\<close> persisted for the primary key of the instance
  holds, as it is. The result does not depend on the manager name or the filter of the
  descriptor, nor on any table other than the one of the field's own model: nothing is
  counted through the relation manager.
\<close>

theorem CountField_pre_save_policy:
  assumes "cf_attname fld = Some a"
  shows "CountField_pre_save fld db inst True = (Inr (PyInt 0), setattr inst a (PyInt 0))
    \<and> getattr (snd (CountField_pre_save fld db inst True)) a = Some (PyInt 0)
    \<and> (cd_model (cf_denorm fld) = Some m \<longrightarrow> db m (pk inst) = Some r \<longrightarrow>
         CountField_pre_save fld db inst False = (Inr (r a), setattr inst a (r a))
         \<and> getattr (snd (CountField_pre_save fld db inst False)) a = Some (r a))
    \<and> CountField_pre_save
         (fld\<lparr>cf_denorm := (cf_denorm fld)\<lparr>cd_manager_name := mn, cd_filter := flt\<rparr>\<rparr>)
         db inst add
       = CountField_pre_save fld db inst add
    \<and> (cd_model (cf_denorm fld) = Some m \<longrightarrow> db' m = db m \<longrightarrow>
         CountField_pre_save fld db' inst add = CountField_pre_save fld db inst add)"
proof -
  have ins: "CountField_pre_save fld db inst True = (Inr (PyInt 0), setattr inst a (PyInt 0))"
    using assms by (simp add: CountField_pre_save_def)
  have upd: "CountField_pre_save fld db inst False = (Inr (r a), setattr inst a (r a))"
    if "cd_model (cf_denorm fld) = Some m" "db m (pk inst) = Some r"
    using assms that by (simp add: CountField_pre_save_def read_back_row)
  have stored: "getattr (setattr inst a v) a = Some v" for v
    by (simp add: getattr_def setattr_def)
  have manager: "CountField_pre_save
         (fld\<lparr>cf_denorm := (cf_denorm fld)\<lparr>cd_manager_name := mn, cd_filter := flt\<rparr>\<rparr>)
         db inst add
       = CountField_pre_save fld db inst add"
    by (simp add: CountField_pre_save_def split: option.splits sum.splits)
  have tables: "CountField_pre_save fld db' inst add = CountField_pre_save fld db inst add"
    if "cd_model (cf_denorm fld) = Some m" "db' m = db m"
    using that by (simp add: CountField_pre_save_def split: option.splits sum.splits)
  show ?thesis
    using ins upd stored manager tables by simp
qed

theorem CountField_pre_save_policy_witness:
  "cf_attname author_book_count = Some ''book_count''
   \<and> cd_model (cf_denorm author_book_count) = Some ''Author''
   \<and> CountField_pre_save author_book_count author_db author_1 True
       = (Inr (PyInt 0), setattr author_1 ''book_count'' (PyInt 0))
   \<and> CountField_pre_save author_book_count author_db author_1 False
       = (Inr (PyInt 3), setattr author_1 ''book_count'' (PyInt 3))
   \<and> getattr (snd (CountField_pre_save author_book_count author_db author_1 False))
       ''book_count'' = Some (PyInt 3)"
proof -
  have row: "author_db ''Author'' (pk author_1)
      = Some (\<lambda>column. if column = ''book_count'' then PyInt 3 else PyNone)"
    by (simp add: author_db_def author_1_def)
  show ?thesis
    using CountField_pre_save_policy [OF author_book_count_attached(1),
        where db = author_db and inst = author_1 and m = "''Author''"
          and r = "\<lambda>column. if column = ''book_count'' then PyInt 3 else PyNone"
          and mn = "''books''" and flt = "PyDict []" and add = True and db' = author_db]
      author_book_count_attached row
    by (simp add: getattr_def setattr_def)
qed

text \<open>
  C10. The constructors of \<^verbatim>\<open>CountField\<close> and \<^verbatim>\<open>CacheKeyField\<close> call the
  constructor of the base field with the keyword \<^verbatim>\<open>default\<close> set to 0, whatever the
  caller gave for it, and the one of \<^verbatim>\<open>CountField\<close> passes neither \<^verbatim>\<open>skip\<close> nor
  \<^verbatim>\<open>filter\<close> on.
\<close>

theorem init_default_zero:
  "cf_base_kwargs (fst (CountField_init manager_name kw rt))
     = (kw(''skip'' := None, ''filter'' := None))(''default'' \<mapsto> PyInt 0)
   \<and> cf_base_kwargs (fst (CountField_init manager_name kw rt)) ''default'' = Some (PyInt 0)
   \<and> cf_base_kwargs (fst (CountField_init manager_name kw rt)) ''skip'' = None
   \<and> cf_base_kwargs (fst (CountField_init manager_name kw rt)) ''filter'' = None
   \<and> kf_base_kwargs (CacheKeyField_init kw) = kw(''default'' \<mapsto> PyInt 0)
   \<and> kf_base_kwargs (CacheKeyField_init kw) ''default'' = Some (PyInt 0)"
  by (simp add: CountField_init_def CacheKeyField_init_def pop_def new_object_def Let_def)

section \<open>Properties of the computed field\<close>

lemma order_total_attached:
  "df_denorm order_total =
     Some \<lparr>bd_id = 0, bd_class = CallbackDenorm, bd_skip = PyNone, bd_func = order_total_func,
           bd_depend = [], bd_model = Some ''Order'', bd_fieldname = Some ''total''\<rparr>"
  "df_attname order_total = Some ''total''"
  by (simp_all add: order_total_def DenormDBField_contribute_to_class_def deco_def
      denormalized_def DenormDBField_init_def pop_def new_object_def rt0_def Let_def
      IntegerField_def order_total_func_def)

text \<open>
  C2. For a computed field attached under the attribute name \<open>a\<close>, \<^verbatim>\<open>pre_save\<close>
  calls the compute function bound to the descriptor on the model instance; when the
  function returns \<open>v\<close>, \<^verbatim>\<open>pre_save\<close> writes \<open>v\<close> to the attribute and returns
  \<open>v\<close>, for \<open>add = True\<close> and for \<open>add = False\<close> alike, so the attribute then
  holds the value the compute function returned.
\<close>

theorem DenormDBField_pre_save_computes:
  assumes "df_denorm fld = Some d"
    and "df_attname fld = Some a"
    and "fn_call (bd_func d) inst w = (Inr v, inst1, w1)"
  shows "DenormDBField_pre_save fld inst add w = (Inr v, setattr inst1 a v, w1)
    \<and> getattr (fst (snd (DenormDBField_pre_save fld inst add w))) a = Some v"
  using assms by (simp add: DenormDBField_pre_save_def getattr_def setattr_def)

theorem DenormDBField_pre_save_computes_witness:
  "fn_call order_total_func order_1 0 = (Inr (PyInt 42), order_1, 1)
   \<and> DenormDBField_pre_save order_total order_1 True 0
       = (Inr (PyInt 42), setattr order_1 ''total'' (PyInt 42), 1)
   \<and> DenormDBField_pre_save order_total order_1 False 0
       = (Inr (PyInt 42), setattr order_1 ''total'' (PyInt 42), 1)"
proof -
  have call: "fn_call (bd_func \<lparr>bd_id = 0, bd_class = CallbackDenorm, bd_skip = PyNone,
        bd_func = order_total_func, bd_depend = [], bd_model = Some ''Order'',
        bd_fieldname = Some ''total''\<rparr>) order_1 0 = (Inr (PyInt 42), order_1, 1)"
    by (simp add: order_total_func_def order_1_def)
  show ?thesis
    using DenormDBField_pre_save_computes [OF order_total_attached call, where add = True]
      DenormDBField_pre_save_computes [OF order_total_attached call, where add = False]
      call
    by simp
qed

text \<open>
  C5, as stated, fails: the compute function of \<open>order_writing_total\<close> writes 99 to
  the attribute \<^verbatim>\<open>total\<close> and then raises. \<^verbatim>\<open>pre_save\<close> ends with the exception,
  and the attribute, which was 7 before the call, is 99 after it: nothing undoes what
  the compute function did to the instance before it raised.
\<close>

theorem DenormDBField_pre_save_retains_counterexample:
  "getattr order_2 ''total'' = Some (PyInt 7)
   \<and> fst (DenormDBField_pre_save order_writing_total order_2 False 0)
       = Inl (Raised ''ValueError'')
   \<and> getattr (fst (snd (DenormDBField_pre_save order_writing_total order_2 False 0))) ''total''
       = Some (PyInt 99)"
  by (simp add: DenormDBField_pre_save_def order_writing_total_def order_writing_func_def
      DenormDBField_contribute_to_class_def deco_def denormalized_def DenormDBField_init_def
      pop_def new_object_def rt0_def IntegerField_def Let_def order_2_def
      getattr_def setattr_def)

text \<open>
  C5, amended. When the compute function of a computed field raises \<open>e\<close>,
  \<^verbatim>\<open>pre_save\<close> ends with the same exception and writes nothing itself: the instance
  after the call is the instance \<open>inst1\<close> as the compute function left it, so every
  attribute has the value the compute function left, and when the compute function
  did not change the instance, the instance after the call is the one before it.
\<close>

theorem DenormDBField_pre_save_raises:
  assumes "df_denorm fld = Some d"
    and "fn_call (bd_func d) inst w = (Inl e, inst1, w1)"
  shows "DenormDBField_pre_save fld inst add w = (Inl e, inst1, w1)
    \<and> getattr (fst (snd (DenormDBField_pre_save fld inst add w))) x = getattr inst1 x
    \<and> (inst1 = inst \<longrightarrow> fst (snd (DenormDBField_pre_save fld inst add w)) = inst)"
  using assms by (simp add: DenormDBField_pre_save_def)

theorem DenormDBField_pre_save_raises_witness:
  "fn_call order_total_func order_2 0 = (Inl (Raised ''AttributeError''), order_2, 1)
   \<and> DenormDBField_pre_save order_total order_2 False 0
       = (Inl (Raised ''AttributeError''), order_2, 1)
   \<and> getattr (fst (snd (DenormDBField_pre_save order_total order_2 False 0))) ''total''
       = Some (PyInt 7)
   \<and> fst (snd (DenormDBField_pre_save order_total order_2 False 0)) = order_2"
proof -
  have call: "fn_call (bd_func \<lparr>bd_id = 0, bd_class = CallbackDenorm, bd_skip = PyNone,
        bd_func = order_total_func, bd_depend = [], bd_model = Some ''Order'',
        bd_fieldname = Some ''total''\<rparr>) order_2 0
      = (Inl (Raised ''AttributeError''), order_2, 1)"
    by (simp add: order_total_func_def order_2_def)
  have "getattr order_2 ''total'' = Some (PyInt 7)"
    by (simp add: getattr_def order_2_def)
  then show ?thesis
    using DenormDBField_pre_save_raises [OF order_total_attached(1) call,
        where add = False and x = "''total''"] call
    by simp
qed

section \<open>Properties of \<^verbatim>\<open>CacheKeyField\<close>\<close>

lemma article_cache_key_attached:
  "kf_denorm article_cache_key =
     Some \<lparr>kd_id = 0,
           kd_depend = [(CacheKeyDependOnRelated [PyStr ''Comment''] Map.empty)
                          \<lparr>dep_fieldname := Some ''cache_key''\<rparr>],
           kd_func = counter_token, kd_model = Some ''Article'',
           kd_fieldname = Some ''cache_key''\<rparr>"
  "kf_attname article_cache_key = Some ''cache_key''"
  by (simp_all add: article_cache_key_def CacheKeyField_contribute_to_class_def
      CacheKeyField_init_def depend_on_related_def BaseCacheKeyDenorm_def
      new_object_def rt0_def Let_def)

text \<open>
  C3. For a \<^verbatim>\<open>CacheKeyField\<close> attached under the attribute name \<open>a\<close> with the
  descriptor \<open>d\<close>: with \<open>add = True\<close>, \<^verbatim>\<open>pre_save\<close> calls the compute function
  of the descriptor and writes and returns the token \<open>v\<close> that it produced, so the
  attribute of the instance then holds \<open>v\<close>. With \<open>add = False\<close> it writes and
  returns the value that the row persisted for the primary key of the instance holds,
  so the attribute then holds that value; the compute function is not called: the
  world is left as it was, and the outcome is the same with any other compute function
  \<open>g\<close>.
\<close>

theorem CacheKeyField_pre_save_policy:
  assumes "kf_denorm fld = Some d"
    and "kf_attname fld = Some a"
  shows "(kd_func d inst w = (Inr v, inst1, w1) \<longrightarrow>
            CacheKeyField_pre_save fld db inst True w = (Inr v, setattr inst1 a v, w1)
            \<and> getattr (fst (snd (CacheKeyField_pre_save fld db inst True w))) a = Some v)
    \<and> (kd_model d = Some m \<longrightarrow> db m (pk inst) = Some r \<longrightarrow>
          CacheKeyField_pre_save fld db inst False w = (Inr (r a), setattr inst a (r a), w)
          \<and> getattr (fst (snd (CacheKeyField_pre_save fld db inst False w))) a = Some (r a)
          \<and> pk (fst (snd (CacheKeyField_pre_save fld db inst False w))) = pk inst)
    \<and> snd (snd (CacheKeyField_pre_save fld db inst False w)) = w
    \<and> CacheKeyField_pre_save (fld\<lparr>kf_denorm := Some (d\<lparr>kd_func := g\<rparr>)\<rparr>) db inst False w
        = CacheKeyField_pre_save fld db inst False w"
proof -
  have stored: "getattr (setattr i a x) a = Some x" for i x
    by (simp add: getattr_def setattr_def)
  have key: "pk (setattr i a x) = pk i" for i x
    by (simp add: setattr_def)
  have ins: "CacheKeyField_pre_save fld db inst True w = (Inr v, setattr inst1 a v, w1)"
    if "kd_func d inst w = (Inr v, inst1, w1)"
    using assms that by (simp add: CacheKeyField_pre_save_def)
  have upd: "CacheKeyField_pre_save fld db inst False w = (Inr (r a), setattr inst a (r a), w)"
    if "kd_model d = Some m" "db m (pk inst) = Some r"
    using assms that by (simp add: CacheKeyField_pre_save_def read_back_row)
  have world: "snd (snd (CacheKeyField_pre_save fld db inst False w)) = w"
    using assms by (simp add: CacheKeyField_pre_save_def split: option.splits sum.splits)
  have other: "CacheKeyField_pre_save (fld\<lparr>kf_denorm := Some (d\<lparr>kd_func := g\<rparr>)\<rparr>) db inst False w
        = CacheKeyField_pre_save fld db inst False w"
    using assms by (simp add: CacheKeyField_pre_save_def split: option.splits sum.splits)
  show ?thesis
    using ins upd world other by (simp add: stored key)
qed

theorem CacheKeyField_pre_save_policy_witness:
  "counter_token article_1 8 = (Inr (PyInt 8), article_1, 9)
   \<and> CacheKeyField_pre_save article_cache_key article_db article_1 True 8
       = (Inr (PyInt 8), setattr article_1 ''cache_key'' (PyInt 8), 9)
   \<and> getattr article_1 ''cache_key'' = Some (PyInt 5)
   \<and> getattr (fst (snd (CacheKeyField_pre_save article_cache_key article_db article_1 True 8)))
        ''cache_key'' = Some (PyInt 8)
   \<and> article_db ''Article'' (pk article_1) \<noteq> None
   \<and> CacheKeyField_pre_save article_cache_key article_db article_1 False 8
       = (Inr (PyInt 777), setattr article_1 ''cache_key'' (PyInt 777), 8)
   \<and> getattr (fst (snd (CacheKeyField_pre_save article_cache_key article_db article_1 False 8)))
        ''cache_key'' = Some (PyInt 777)"
proof -
  have call: "counter_token article_1 8 = (Inr (PyInt 8), article_1, 9)"
    by (simp add: counter_token_def)
  have row: "article_db ''Article'' (pk article_1)
      = Some (\<lambda>column. if column = ''cache_key'' then PyInt 777 else PyNone)"
    by (simp add: article_db_def article_1_def)
  have before: "getattr article_1 ''cache_key'' = Some (PyInt 5)"
    by (simp add: getattr_def article_1_def)
  have c: "kd_func \<lparr>kd_id = 0,
           kd_depend = [(CacheKeyDependOnRelated [PyStr ''Comment''] Map.empty)
                          \<lparr>dep_fieldname := Some ''cache_key''\<rparr>],
           kd_func = counter_token, kd_model = Some ''Article'',
           kd_fieldname = Some ''cache_key''\<rparr> = counter_token"
    "kd_model \<lparr>kd_id = 0,
           kd_depend = [(CacheKeyDependOnRelated [PyStr ''Comment''] Map.empty)
                          \<lparr>dep_fieldname := Some ''cache_key''\<rparr>],
           kd_func = counter_token, kd_model = Some ''Article'',
           kd_fieldname = Some ''cache_key''\<rparr> = Some ''Article''"
    by simp_all
  note t = CacheKeyField_pre_save_policy [OF article_cache_key_attached,
        where inst = article_1 and w = 8 and v = "PyInt 8" and ?inst1.0 = article_1
          and ?w1.0 = 9 and db = article_db and m = "''Article''"
          and r = "\<lambda>column. if column = ''cache_key'' then PyInt 777 else PyNone"
          and g = counter_token, unfolded c]
  have ins: "CacheKeyField_pre_save article_cache_key article_db article_1 True 8
       = (Inr (PyInt 8), setattr article_1 ''cache_key'' (PyInt 8), 9)"
    "getattr (fst (snd (CacheKeyField_pre_save article_cache_key article_db article_1 True 8)))
        ''cache_key'' = Some (PyInt 8)"
    using t call by blast+
  have upd: "CacheKeyField_pre_save article_cache_key article_db article_1 False 8
       = (Inr (if ''cache_key'' = ''cache_key'' then PyInt 777 else PyNone),
          setattr article_1 ''cache_key''
            (if ''cache_key'' = ''cache_key'' then PyInt 777 else PyNone), 8)"
    "getattr (fst (snd (CacheKeyField_pre_save article_cache_key article_db article_1 False 8)))
        ''cache_key'' = Some (if ''cache_key'' = ''cache_key'' then PyInt 777 else PyNone)"
    using t row by blast+
  have upd': "CacheKeyField_pre_save article_cache_key article_db article_1 False 8
       = (Inr (PyInt 777), setattr article_1 ''cache_key'' (PyInt 777), 8)"
    "getattr (fst (snd (CacheKeyField_pre_save article_cache_key article_db article_1 False 8)))
        ''cache_key'' = Some (PyInt 777)"
    using upd by simp_all
  have present: "article_db ''Article'' (pk article_1) \<noteq> None"
    using row by simp
  show ?thesis
    using call ins(1) before ins(2) present upd'(1) upd'(2)
    by (intro conjI)
qed

text \<open>
  C6. For a \<^verbatim>\<open>CountField\<close> and for a \<^verbatim>\<open>CacheKeyField\<close> attached to the model
  \<open>m\<close>: when \<open>add = False\<close> and the store has no row for the primary key of the
  instance, \<^verbatim>\<open>pre_save\<close> ends with IndexError, the instance is unchanged (and so is
  the world), so the attribute is not written. The failure tells the missing row apart:
  \<^verbatim>\<open>pre_save\<close> with \<open>add = False\<close> ends with IndexError only when the row is
  missing.
\<close>

theorem pre_save_row_not_found:
  "(cd_model (cf_denorm cfld) = Some m \<longrightarrow> cf_attname cfld = Some a \<longrightarrow>
      (db m (pk inst) = None \<longrightarrow> CountField_pre_save cfld db inst False = (Inl IndexError, inst))
      \<and> ((fst (CountField_pre_save cfld db inst False) = Inl IndexError)
           = (db m (pk inst) = None)))
   \<and> (kf_denorm kfld = Some d \<longrightarrow> kd_model d = Some m \<longrightarrow> kf_attname kfld = Some a \<longrightarrow>
      (db m (pk inst) = None \<longrightarrow>
         CacheKeyField_pre_save kfld db inst False w = (Inl IndexError, inst, w))
      \<and> ((fst (CacheKeyField_pre_save kfld db inst False w) = Inl IndexError)
           = (db m (pk inst) = None)))"
proof -
  have count: "CountField_pre_save cfld db inst False = (Inl IndexError, inst)"
    if "cd_model (cf_denorm cfld) = Some m" "cf_attname cfld = Some a" "db m (pk inst) = None"
    using that by (simp add: CountField_pre_save_def read_back_no_row)
  have count_only: "fst (CountField_pre_save cfld db inst False) \<noteq> Inl IndexError"
    if "cd_model (cf_denorm cfld) = Some m" "cf_attname cfld = Some a" "db m (pk inst) = Some r"
    for r
    using that by (simp add: CountField_pre_save_def read_back_row)
  have key: "CacheKeyField_pre_save kfld db inst False w = (Inl IndexError, inst, w)"
    if "kf_denorm kfld = Some d" "kd_model d = Some m" "kf_attname kfld = Some a"
      "db m (pk inst) = None"
    using that by (simp add: CacheKeyField_pre_save_def read_back_no_row)
  have key_only: "fst (CacheKeyField_pre_save kfld db inst False w) \<noteq> Inl IndexError"
    if "kf_denorm kfld = Some d" "kd_model d = Some m" "kf_attname kfld = Some a"
      "db m (pk inst) = Some r"
    for r
    using that by (simp add: CacheKeyField_pre_save_def read_back_row)
  show ?thesis
  proof (cases "db m (pk inst)")
    case None
    then show ?thesis using count key by simp
  next
    case (Some r)
    then show ?thesis using count_only key_only by simp
  qed
qed

theorem pre_save_row_not_found_witness:
  "author_db ''Author'' (pk author_2) = None
   \<and> CountField_pre_save author_book_count author_db author_2 False = (Inl IndexError, author_2)
   \<and> article_db ''Article'' (pk article_2) = None
   \<and> CacheKeyField_pre_save article_cache_key article_db article_2 False 8
       = (Inl IndexError, article_2, 8)"
proof -
  have a: "author_db ''Author'' (pk author_2) = None"
    by (simp add: author_db_def author_2_def)
  have b: "article_db ''Article'' (pk article_2) = None"
    by (simp add: article_db_def article_2_def)
  have c: "kd_model \<lparr>kd_id = 0,
           kd_depend = [(CacheKeyDependOnRelated [PyStr ''Comment''] Map.empty)
                          \<lparr>dep_fieldname := Some ''cache_key''\<rparr>],
           kd_func = counter_token, kd_model = Some ''Article'',
           kd_fieldname = Some ''cache_key''\<rparr> = Some ''Article''"
    by simp
  show ?thesis
    using pre_save_row_not_found [where cfld = author_book_count and m = "''Author''"
          and a = "''book_count''" and db = author_db and inst = author_2
          and kfld = article_cache_key and w = 8]
      pre_save_row_not_found [where kfld = article_cache_key and m = "''Article''"
          and a = "''cache_key''" and db = article_db and inst = article_2
          and cfld = author_book_count and w = 8, OF ]
      author_book_count_attached article_cache_key_attached a b c
    by simp
qed

lemma depend_on_related_calls_dependencies:
  "kf_dependencies (depend_on_related_calls fld calls)
     = kf_dependencies fld @ map (\<lambda>(dargs, dkwargs). CacheKeyDependOnRelated dargs dkwargs) calls"
proof (induction calls arbitrary: fld)
  case Nil
  show ?case by simp
next
  case (Cons c calls)
  obtain dargs dkwargs where c: "c = (dargs, dkwargs)"
    by (cases c)
  show ?case
    unfolding c by (simp add: Cons.IH depend_on_related_def)
qed

text \<open>
  C7. After the calls \<open>calls\<close> of \<^verbatim>\<open>depend_on_related\<close> on a new
  \<^verbatim>\<open>CacheKeyField\<close>, the dependency list of the field holds one declaration for each
  call, built from the arguments of that call, in the order of the calls, and so has
  as many entries as there were calls. When the field is attached to a class under
  \<open>name\<close>, the descriptor's dependency list is this list, each declaration now
  carrying the field name, and it is the list that the field itself holds.
\<close>

theorem depend_on_related_accumulates:
  "kf_dependencies (depend_on_related_calls (CacheKeyField_init kw :: 'w cachekey_field) calls)
     = map (\<lambda>(dargs, dkwargs). CacheKeyDependOnRelated dargs dkwargs) calls
   \<and> length (kf_dependencies
         (depend_on_related_calls (CacheKeyField_init kw :: 'w cachekey_field) calls))
     = length calls
   \<and> map_option kd_depend (kf_denorm (fst (CacheKeyField_contribute_to_class token
         (depend_on_related_calls (CacheKeyField_init kw :: 'w cachekey_field) calls)
         cls name rt)))
     = Some (map (\<lambda>(dargs, dkwargs).
               (CacheKeyDependOnRelated dargs dkwargs)\<lparr>dep_fieldname := Some name\<rparr>) calls)
   \<and> map_option kd_depend (kf_denorm (fst (CacheKeyField_contribute_to_class token
         (depend_on_related_calls (CacheKeyField_init kw :: 'w cachekey_field) calls)
         cls name rt)))
     = Some (kf_dependencies (fst (CacheKeyField_contribute_to_class token
         (depend_on_related_calls (CacheKeyField_init kw :: 'w cachekey_field) calls)
         cls name rt)))"
proof -
  have new: "kf_dependencies (CacheKeyField_init kw :: 'w cachekey_field) = []"
    by (simp add: CacheKeyField_init_def Let_def)
  have acc: "kf_dependencies
        (depend_on_related_calls (CacheKeyField_init kw :: 'w cachekey_field) calls)
      = map (\<lambda>(dargs, dkwargs). CacheKeyDependOnRelated dargs dkwargs) calls"
    by (simp add: depend_on_related_calls_dependencies new)
  have attach: "map_option kd_depend
        (kf_denorm (fst (CacheKeyField_contribute_to_class token fld cls name rt)))
      = Some (map (\<lambda>depend. depend\<lparr>dep_fieldname := Some name\<rparr>) (kf_dependencies fld))"
    and same: "kf_dependencies (fst (CacheKeyField_contribute_to_class token fld cls name rt))
      = map (\<lambda>depend. depend\<lparr>dep_fieldname := Some name\<rparr>) (kf_dependencies fld)"
    for fld :: "'w cachekey_field"
    by (simp_all add: CacheKeyField_contribute_to_class_def BaseCacheKeyDenorm_def
        new_object_def Let_def)
  have named: "map (\<lambda>depend. depend\<lparr>dep_fieldname := Some name\<rparr>)
        (map (\<lambda>(dargs, dkwargs). CacheKeyDependOnRelated dargs dkwargs) calls)
      = map (\<lambda>(dargs, dkwargs).
               (CacheKeyDependOnRelated dargs dkwargs)\<lparr>dep_fieldname := Some name\<rparr>) calls"
    by (simp add: case_prod_beta)
  show ?thesis
    by (simp only: acc attach same named length_map simp_thms)
qed

section \<open>Registration of the many-to-many hooks\<close>

lemma connect_again: "connect (connect regs r sender) r sender = connect regs r sender"
  by (simp add: connect_def)

lemma count_connect:
  assumes "count_list regs (r, sender) \<le> 1"
  shows "count_list (connect regs r sender) (r, sender) = 1"
proof (cases "(r, sender) \<in> set regs")
  case True
  then have "count_list regs (r, sender) \<noteq> 0"
    by (simp add: count_list_0_iff)
  with assms True show ?thesis
    by (simp add: connect_def)
next
  case False
  then have "count_list regs (r, sender) = 0"
    by (simp add: count_list_0_iff)
  with False show ?thesis
    by (simp add: connect_def)
qed

lemma contribute_hooks:
  "sig_pre_save (snd (DenormDBField_contribute_to_class fld bulk_unsafe cls name args kw rt))
     = connect (sig_pre_save rt) ManyToManyPreSave (Some cls)"
  "sig_post_save (snd (DenormDBField_contribute_to_class fld bulk_unsafe cls name args kw rt))
     = connect (sig_post_save rt) ManyToManyPostSave (Some cls)"
  by (simp_all add: DenormDBField_contribute_to_class_def new_object_def Let_def)

lemma contribute_all_hooks:
  "flds \<noteq> [] \<Longrightarrow>
     sig_pre_save (snd (contribute_all flds bulk_unsafe cls rt))
       = connect (sig_pre_save rt) ManyToManyPreSave (Some cls)
     \<and> sig_post_save (snd (contribute_all flds bulk_unsafe cls rt))
       = connect (sig_post_save rt) ManyToManyPostSave (Some cls)"
proof (induction flds arbitrary: rt)
  case Nil
  then show ?case by simp
next
  case (Cons p rest)
  obtain fld name where p: "p = (fld, name)"
    by (cases p)
  let ?rt1 = "snd (DenormDBField_contribute_to_class fld bulk_unsafe cls name [] Map.empty rt)"
  have step: "snd (contribute_all (p # rest) bulk_unsafe cls rt)
      = snd (contribute_all rest bulk_unsafe cls ?rt1)"
    unfolding p by (simp add: Let_def split: prod.splits)
  show ?case
  proof (cases "rest = []")
    case True
    then show ?thesis
      unfolding step by (simp add: contribute_hooks)
  next
    case False
    then show ?thesis
      unfolding step by (simp add: Cons.IH contribute_hooks connect_again)
  qed
qed

text \<open>
  C4. When one or more computed fields are attached to the class \<open>cls\<close>, in a
  runtime where each of the two many-to-many hooks is registered for \<open>cls\<close> at most
  once, each hook is afterwards registered for \<open>cls\<close> exactly once, however many
  fields there are: the registrations are those that the first field alone leaves, and
  attaching one more field changes neither list. Connecting a receiver that is already
  connected for the sender returns the registrations as they are.
\<close>

theorem many_to_many_hooks_registered_once:
  assumes "flds \<noteq> []"
    and "count_list (sig_pre_save rt) (ManyToManyPreSave, Some cls) \<le> 1"
    and "count_list (sig_post_save rt) (ManyToManyPostSave, Some cls) \<le> 1"
  shows "count_list (sig_pre_save (snd (contribute_all flds bulk_unsafe cls rt)))
           (ManyToManyPreSave, Some cls) = 1
    \<and> count_list (sig_post_save (snd (contribute_all flds bulk_unsafe cls rt)))
           (ManyToManyPostSave, Some cls) = 1
    \<and> sig_pre_save (snd (contribute_all flds bulk_unsafe cls rt))
        = sig_pre_save (snd (contribute_all [hd flds] bulk_unsafe cls rt))
    \<and> sig_post_save (snd (contribute_all flds bulk_unsafe cls rt))
        = sig_post_save (snd (contribute_all [hd flds] bulk_unsafe cls rt))
    \<and> sig_pre_save (snd (DenormDBField_contribute_to_class fld bulk_unsafe cls name args kw
          (snd (contribute_all flds bulk_unsafe cls rt))))
        = sig_pre_save (snd (contribute_all flds bulk_unsafe cls rt))
    \<and> sig_post_save (snd (DenormDBField_contribute_to_class fld bulk_unsafe cls name args kw
          (snd (contribute_all flds bulk_unsafe cls rt))))
        = sig_post_save (snd (contribute_all flds bulk_unsafe cls rt))
    \<and> connect (connect regs r sender) r sender = connect regs r sender"
proof -
  have all: "sig_pre_save (snd (contribute_all flds bulk_unsafe cls rt))
       = connect (sig_pre_save rt) ManyToManyPreSave (Some cls)"
    "sig_post_save (snd (contribute_all flds bulk_unsafe cls rt))
       = connect (sig_post_save rt) ManyToManyPostSave (Some cls)"
    using contribute_all_hooks [OF assms(1)] by simp_all
  have first: "sig_pre_save (snd (contribute_all [hd flds] bulk_unsafe cls rt))
       = connect (sig_pre_save rt) ManyToManyPreSave (Some cls)"
    "sig_post_save (snd (contribute_all [hd flds] bulk_unsafe cls rt))
       = connect (sig_post_save rt) ManyToManyPostSave (Some cls)"
    using contribute_all_hooks [of "[hd flds]"] by simp_all
  show ?thesis
    by (simp only: all first contribute_hooks connect_again
        count_connect [OF assms(2)] count_connect [OF assms(3)] simp_thms)
qed

theorem many_to_many_hooks_registered_once_witness:
  "order_fields \<noteq> []
   \<and> count_list (sig_pre_save rt0) (ManyToManyPreSave, Some ''Order'') \<le> 1
   \<and> count_list (sig_post_save rt0) (ManyToManyPostSave, Some ''Order'') \<le> 1
   \<and> count_list (sig_pre_save (snd (contribute_all order_fields None ''Order'' rt0)))
        (ManyToManyPreSave, Some ''Order'') = 1
   \<and> count_list (sig_post_save (snd (contribute_all order_fields None ''Order'' rt0)))
        (ManyToManyPostSave, Some ''Order'') = 1"
proof -
  have a: "order_fields \<noteq> []"
    by (simp add: order_fields_def)
  have b: "count_list (sig_pre_save rt0) (ManyToManyPreSave, Some ''Order'') \<le> 1"
    by (simp add: rt0_def)
  have c: "count_list (sig_post_save rt0) (ManyToManyPostSave, Some ''Order'') \<le> 1"
    by (simp add: rt0_def)
  show ?thesis
    using many_to_many_hooks_registered_once [OF a b c, where bulk_unsafe = None
          and fld = "fst (hd order_fields)" and name = "''total''" and args = "[]"
          and kw = Map.empty and regs = "[]" and r = ManyToManyPreSave and sender = None]
      a b c
    by blast
qed

section \<open>The decorator\<close>

text \<open>
  C9, as stated, fails: \<^verbatim>\<open>denormalized(IntegerField, skip=('title',), max_length=10)\<close>
  is given the keyword \<^verbatim>\<open>skip\<close>, and the constructor of the integer field is called
  without it.
\<close>

theorem deco_forwards_all_counterexample:
  "cl_kwargs (denormalized IntegerField [] skip_kwargs) ''skip'' = Some (PyTuple [PyStr ''title''])
   \<and> df_base_kwargs (fst (deco (denormalized IntegerField [] skip_kwargs) order_total_func))
        ''skip'' = None"
  by (simp add: deco_def denormalized_def DenormDBField_init_def pop_def skip_kwargs_def Let_def)

text \<open>
  C9, amended. The field that the decorator of \<^verbatim>\<open>denormalized(DBField, *args, **kw)\<close>
  builds calls the constructor of \<^verbatim>\<open>DBField\<close> with \<^verbatim>\<open>blank=True\<close> always, and with
  \<^verbatim>\<open>null=True\<close> when \<open>kw\<close> has no \<^verbatim>\<open>default\<close>; when it has one, \<^verbatim>\<open>null\<close> is
  passed as the caller gave it. The keyword \<^verbatim>\<open>skip\<close> is kept by the wrapper and not
  passed on. The positional arguments and every keyword other than \<^verbatim>\<open>blank\<close>,
  \<^verbatim>\<open>null\<close> and \<^verbatim>\<open>skip\<close> are passed unchanged. Applying the decorator a second time
  calls the constructor with the same keywords.
\<close>

theorem deco_forwards:
  "df_base_kwargs (fst (deco (denormalized DBField args kw) func)) ''blank'' = Some (PyBool True)
   \<and> (kw ''default'' = None \<longrightarrow>
        df_base_kwargs (fst (deco (denormalized DBField args kw) func)) ''null''
          = Some (PyBool True))
   \<and> (kw ''default'' \<noteq> None \<longrightarrow>
        df_base_kwargs (fst (deco (denormalized DBField args kw) func)) ''null'' = kw ''null'')
   \<and> df_base_kwargs (fst (deco (denormalized DBField args kw) func)) ''skip'' = None
   \<and> df_skip (fst (deco (denormalized DBField args kw) func))
        = (case kw ''skip'' of None \<Rightarrow> PyNone | Some v \<Rightarrow> v)
   \<and> (k \<noteq> ''blank'' \<longrightarrow> k \<noteq> ''null'' \<longrightarrow> k \<noteq> ''skip'' \<longrightarrow>
        df_base_kwargs (fst (deco (denormalized DBField args kw) func)) k = kw k)
   \<and> df_base_args (fst (deco (denormalized DBField args kw) func)) = args
   \<and> df_base (fst (deco (denormalized DBField args kw) func)) = DBField
   \<and> df_func (fst (deco (denormalized DBField args kw) func)) = func
   \<and> df_base_kwargs (fst (deco (snd (deco (denormalized DBField args kw) func)) func'))
        = df_base_kwargs (fst (deco (denormalized DBField args kw) func'))"
  by (simp add: deco_def denormalized_def DenormDBField_init_def pop_def Let_def)

theorem deco_forwards_witness:
  "skip_kwargs ''default'' = None
   \<and> df_base_kwargs (fst (deco (denormalized IntegerField [] skip_kwargs) order_total_func))
        ''null'' = Some (PyBool True)
   \<and> ''max_length'' \<noteq> ''blank'' \<and> ''max_length'' \<noteq> ''null'' \<and> ''max_length'' \<noteq> ''skip''
   \<and> df_base_kwargs (fst (deco (denormalized IntegerField [] skip_kwargs) order_total_func))
        ''max_length'' = Some (PyInt 10)
   \<and> (skip_kwargs(''default'' \<mapsto> PyInt 0)) ''default'' \<noteq> None
   \<and> df_base_kwargs
        (fst (deco (denormalized IntegerField [] (skip_kwargs(''default'' \<mapsto> PyInt 0)))
                order_total_func)) ''null'' = None"
proof -
  have a: "skip_kwargs ''default'' = None" "skip_kwargs ''max_length'' = Some (PyInt 10)"
    "skip_kwargs ''null'' = None"
    by (simp_all add: skip_kwargs_def)
  show ?thesis
    using deco_forwards [where DBField = IntegerField and args = "[]" and kw = skip_kwargs
          and func = order_total_func and func' = order_total_func and k = "''max_length''"]
      deco_forwards [where DBField = IntegerField and args = "[]"
          and kw = "skip_kwargs(''default'' \<mapsto> PyInt 0)"
          and func = order_total_func and func' = order_total_func and k = "''max_length''"]
      a
    by simp
qed

section \<open>The migration triples\<close>

lemma literal_zero: "literal_value ''0'' = Some (PyInt 0)"
  by (simp add: literal_value_def)

lemma recreate_default_zero:
  "recreate (path, [], [''default'' \<mapsto> ''0'']) = Some (path, [], [''default'' \<mapsto> PyInt 0])"
  by (auto simp add: recreate_def literal_zero fun_eq_iff)

lemma only_default:
  "([''default'' \<mapsto> v] = m(''default'' \<mapsto> v)) = (dom m \<subseteq> {''default''})"
proof
  assume eq: "[''default'' \<mapsto> v] = m(''default'' \<mapsto> v)"
  show "dom m \<subseteq> {''default''}"
  proof
    fix k
    assume "k \<in> dom m"
    then obtain x where x: "m k = Some x"
      by auto
    show "k \<in> {''default''}"
    proof (rule ccontr)
      assume "k \<notin> {''default''}"
      then have "k \<noteq> ''default''"
        by simp
      then have "(m(''default'' \<mapsto> v)) k = Some x" "[''default'' \<mapsto> v] k = None"
        using x by simp_all
      with eq show False
        by simp
    qed
  qed
next
  assume sub: "dom m \<subseteq> {''default''}"
  show "[''default'' \<mapsto> v] = m(''default'' \<mapsto> v)"
  proof
    fix k
    show "[''default'' \<mapsto> v] k = (m(''default'' \<mapsto> v)) k"
    proof (cases "k = ''default''")
      case True
      then show ?thesis by simp
    next
      case False
      with sub have "m k = None"
        by auto
      with False show ?thesis by simp
    qed
  qed
qed

lemma south_field_triple_paths:
  "fst (DenormDBField_south_field_triple introspector dfld)
     = fc_module (df_base dfld) @ ''.'' @ fc_name (df_base dfld)
   \<and> snd (DenormDBField_south_field_triple introspector dfld) = introspector dfld
   \<and> CountField_south_field_triple cfld
       = (''django.db.models.PositiveIntegerField'', [], [''default'' \<mapsto> ''0''])
   \<and> CacheKeyField_south_field_triple kfld
       = (''django.db.models.BigIntegerField'', [], [''default'' \<mapsto> ''0''])"
  by (simp add: DenormDBField_south_field_triple_def CountField_south_field_triple_def
      CacheKeyField_south_field_triple_def dotted.simps split: prod.splits)

lemma south_field_triple_recreates:
  "(recreate (CountField_south_field_triple (fst (CountField_init manager_name kw rt)))
      = Some (CountField_base_call (fst (CountField_init manager_name kw rt))))
     = (dom kw \<subseteq> {''skip'', ''filter'', ''default''})"
  "(recreate (CacheKeyField_south_field_triple (CacheKeyField_init kw :: 'w cachekey_field))
      = Some (CacheKeyField_base_call (CacheKeyField_init kw :: 'w cachekey_field)))
     = (dom kw \<subseteq> {''default''})"
proof -
  have count: "cf_base_kwargs (fst (CountField_init manager_name kw rt))
      = (kw(''skip'' := None, ''filter'' := None))(''default'' \<mapsto> PyInt 0)"
    by (simp add: CountField_init_def pop_def new_object_def Let_def)
  have key: "kf_base_kwargs (CacheKeyField_init kw :: 'w cachekey_field)
      = kw(''default'' \<mapsto> PyInt 0)"
    by (simp add: CacheKeyField_init_def Let_def)
  have sets: "(A - {a} - {b} \<subseteq> {c}) = (A \<subseteq> {a, b, c})"
    for A :: "string set" and a b c
    by blast
  have doms: "(dom kw - {''skip''} - {''filter''} \<subseteq> {''default''})
      = (dom kw \<subseteq> {''skip'', ''filter'', ''default''})"
    by (rule sets)
  show "(recreate (CountField_south_field_triple (fst (CountField_init manager_name kw rt)))
      = Some (CountField_base_call (fst (CountField_init manager_name kw rt))))
     = (dom kw \<subseteq> {''skip'', ''filter'', ''default''})"
    by (simp add: south_field_triple_paths recreate_default_zero CountField_base_call_def
        count only_default doms)
  show "(recreate (CacheKeyField_south_field_triple (CacheKeyField_init kw :: 'w cachekey_field))
      = Some (CacheKeyField_base_call (CacheKeyField_init kw :: 'w cachekey_field)))
     = (dom kw \<subseteq> {''default''})"
    by (simp add: south_field_triple_paths recreate_default_zero CacheKeyField_base_call_def
        key only_default)
qed

text \<open>
  C8 at \<^verbatim>\<open>CountField('books', db_column='n_books')\<close>: the hook names the base class
  \<^verbatim>\<open>PositiveIntegerField\<close>, but its keyword arguments are \<^verbatim>\<open>default\<close> alone, while
  the underlying field was built with \<^verbatim>\<open>db_column='n_books'\<close> too. The call that the
  triple describes is not the call that built the underlying field.
\<close>

theorem south_field_triple_drops_keywords:
  "CountField_south_field_triple named_book_count
     = (''django.db.models.PositiveIntegerField'', [], [''default'' \<mapsto> ''0''])
   \<and> cf_base_kwargs named_book_count ''db_column'' = Some (PyStr ''n_books'')
   \<and> cf_kwargs named_book_count ''db_column'' = Some (PyStr ''n_books'')
   \<and> recreate (CountField_south_field_triple named_book_count)
       = Some (''django.db.models.PositiveIntegerField'', [], [''default'' \<mapsto> PyInt 0])
   \<and> recreate (CountField_south_field_triple named_book_count)
       \<noteq> Some (CountField_base_call named_book_count)"
proof -
  have t: "CountField_south_field_triple named_book_count
     = (''django.db.models.PositiveIntegerField'', [], [''default'' \<mapsto> ''0''])"
    by (simp add: CountField_south_field_triple_def dotted.simps)
  have k: "cf_base_kwargs named_book_count ''db_column'' = Some (PyStr ''n_books'')"
    "cf_kwargs named_book_count ''db_column'' = Some (PyStr ''n_books'')"
    by (simp_all add: named_book_count_def CountField_init_def pop_def new_object_def Let_def)
  have r: "recreate (CountField_south_field_triple named_book_count)
       = Some (''django.db.models.PositiveIntegerField'', [], [''default'' \<mapsto> PyInt 0])"
    by (simp only: t recreate_default_zero)
  have "[''default'' \<mapsto> PyInt 0] ''db_column'' \<noteq> cf_base_kwargs named_book_count ''db_column''"
    by (simp add: k)
  then have "[''default'' \<mapsto> PyInt 0] \<noteq> cf_base_kwargs named_book_count"
    by metis
  then have "recreate (CountField_south_field_triple named_book_count)
       \<noteq> Some (CountField_base_call named_book_count)"
    by (simp add: r CountField_base_call_def)
  with t k r show ?thesis
    by simp
qed

end
